theory Spec2Isabelle
  imports Main "HOL-Library.Word"
begin

section \<open>The binding header \<^verbatim>\<open>bindings/c/tree-sitter-simplex.h\<close>\<close>

text \<open>
  The repository's source is one C header of sixteen lines. It is embedded as the list of
  its lines, in file order, so that element \<open>i\<close> of the list is line \<open>i + 1\<close> of the file.
  A line is a preprocessor directive, a blank line, one of the two halves of the
  linkage block (\<^verbatim>\<open>extern "C" {\<close> and \<^verbatim>\<open>}\<close>) or a declaration.
\<close>

subsection \<open>C types and declarations\<close>

datatype ctype =
    Void
  | StructTag string
  | TypedefName string
  | Const ctype
  | Pointer ctype

text \<open>
  A parameter list: \<^verbatim>\<open>(void)\<close>, the empty list \<^verbatim>\<open>()\<close> (which in C leaves the
  parameters unspecified), or a list of types followed or not by \<^verbatim>\<open>...\<close>.
\<close>

datatype params =
    VoidParams
  | Unspecified
  | ParamList "ctype list" bool

datatype decl =
    Typedef ctype string
  | StructDef string "(string \<times> ctype) list"
  | FunDecl ctype string params

datatype line =
    IfNDef string
  | IfDef string
  | Define string
  | EndIf
  | Blank
  | ExternC_Open
  | Close_Brace
  | Declaration decl

text \<open>Line 4: \<^verbatim>\<open>typedef struct TSLanguage TSLanguage;\<close>\<close>

definition TSLanguage_typedef :: decl where
  "TSLanguage_typedef = Typedef (StructTag ''TSLanguage'') ''TSLanguage''"

text \<open>Line 10: \<^verbatim>\<open>const TSLanguage *tree_sitter_simplex(void);\<close>\<close>

definition tree_sitter_simplex_decl :: decl where
  "tree_sitter_simplex_decl =
     FunDecl (Pointer (Const (TypedefName ''TSLanguage''))) ''tree_sitter_simplex'' VoidParams"

text \<open>
  The header, line by line. The comment that ends line 16 is dropped, as the preprocessor
  drops it.
\<close>

definition tree_sitter_simplex_h :: "line list" where
  "tree_sitter_simplex_h =
    [IfNDef ''TREE_SITTER_SIMPLEX_H_'',
     Define ''TREE_SITTER_SIMPLEX_H_'',
     Blank,
     Declaration TSLanguage_typedef,
     Blank,
     IfDef ''__cplusplus'',
     ExternC_Open,
     EndIf,
     Blank,
     Declaration tree_sitter_simplex_decl,
     Blank,
     IfDef ''__cplusplus'',
     Close_Brace,
     EndIf,
     Blank,
     EndIf]"

subsection \<open>The preprocessor\<close>

text \<open>
  The directives the header uses are \<^verbatim>\<open>#ifndef\<close>, \<^verbatim>\<open>#ifdef\<close>, \<^verbatim>\<open>#define\<close> and
  \<^verbatim>\<open>#endif\<close>. A translation unit carries the set of macros defined so far and the lines
  that have been passed on to the compiler. While a file is read, the stack \<open>cs\<close> has one
  entry for each conditional that is open, innermost first: whether its condition held.
  A line is kept when every open conditional held.
\<close>

datatype cpp_error = EndifWithoutIf | UnterminatedConditional

record tunit =
  macros :: "string set"
  tokens :: "line list"

definition active :: "bool list \<Rightarrow> bool" where
  "active cs = (False \<notin> set cs)"

fun cpp :: "line list \<Rightarrow> bool list \<Rightarrow> tunit \<Rightarrow> cpp_error + tunit" where
  "cpp [] cs u = (if cs = [] then Inr u else Inl UnterminatedConditional)"
| "cpp (IfNDef m # ls) cs u = cpp ls ((m \<notin> macros u) # cs) u"
| "cpp (IfDef m # ls) cs u = cpp ls ((m \<in> macros u) # cs) u"
| "cpp (EndIf # ls) cs u =
     (case cs of [] \<Rightarrow> Inl EndifWithoutIf | c # cs' \<Rightarrow> cpp ls cs' u)"
| "cpp (Define m # ls) cs u =
     cpp ls cs (if active cs then u\<lparr>macros := insert m (macros u)\<rparr> else u)"
| "cpp (Blank # ls) cs u = cpp ls cs u"
| "cpp (l # ls) cs u =
     cpp ls cs (if active cs then u\<lparr>tokens := tokens u @ [l]\<rparr> else u)"

text \<open>\<^verbatim>\<open>#include "tree-sitter-simplex.h"\<close> at some point of a translation unit.\<close>

definition include_header :: "tunit \<Rightarrow> cpp_error + tunit" where
  "include_header u = cpp tree_sitter_simplex_h [] u"

subsection \<open>The compiler's view: declarations and their language linkage\<close>

text \<open>
  The header is read by C compilers and by C++ compilers. A C++ compiler predefines the
  macro \<^verbatim>\<open>__cplusplus\<close>, a C compiler does not. In C++ a function declared at the top
  level has C++ linkage (its symbol is mangled); inside a block \<^verbatim>\<open>extern "C" { ... }\<close>
  it has C linkage. In C every function has C linkage and \<^verbatim>\<open>extern "C"\<close> is a syntax
  error.
\<close>

datatype language = LangC | LangCxx

datatype linkage = C_linkage | Cxx_linkage

datatype entity =
    TypeName string ctype
  | StructBody string "(string \<times> ctype) list"
  | Function string ctype params linkage

datatype compile_error = Preprocessing cpp_error | SyntaxError

definition predefined :: "language \<Rightarrow> string set" where
  "predefined L = (case L of LangC \<Rightarrow> {} | LangCxx \<Rightarrow> {''__cplusplus''})"

definition linkage_at :: "language \<Rightarrow> nat \<Rightarrow> linkage" where
  "linkage_at L depth = (if L = LangCxx \<and> depth = 0 then Cxx_linkage else C_linkage)"

fun entity_of :: "linkage \<Rightarrow> decl \<Rightarrow> entity" where
  "entity_of k (Typedef t n) = TypeName n t"
| "entity_of k (StructDef tag ms) = StructBody tag ms"
| "entity_of k (FunDecl ret n ps) = Function n ret ps k"

text \<open>
  \<open>translate L depth ls\<close> reads the preprocessed lines \<open>ls\<close> in language \<open>L\<close>, \<open>depth\<close>
  being the number of linkage blocks that are open. No directive is left after
  preprocessing, so one met here is an error.
\<close>

fun translate :: "language \<Rightarrow> nat \<Rightarrow> line list \<Rightarrow> compile_error + entity list" where
  "translate L depth [] = (if depth = 0 then Inr [] else Inl SyntaxError)"
| "translate L depth (ExternC_Open # ls) =
     (if L = LangCxx then translate L (Suc depth) ls else Inl SyntaxError)"
| "translate L depth (Close_Brace # ls) =
     (case depth of 0 \<Rightarrow> Inl SyntaxError | Suc d \<Rightarrow> translate L d ls)"
| "translate L depth (Declaration d # ls) =
     (case translate L depth ls of
        Inl e \<Rightarrow> Inl e
      | Inr es \<Rightarrow> Inr (entity_of (linkage_at L depth) d # es))"
| "translate L depth (l # ls) = Inl SyntaxError"

text \<open>Compiling a source file: preprocess it from the predefined macros, then translate.\<close>

definition compile :: "language \<Rightarrow> line list \<Rightarrow> compile_error + entity list" where
  "compile L src =
     (case cpp src [] \<lparr>macros = predefined L, tokens = []\<rparr> of
        Inl e \<Rightarrow> Inl (Preprocessing e)
      | Inr u \<Rightarrow> translate L 0 (tokens u))"

text \<open>The lines of the header that reach the compiler when its guard is not yet defined.\<close>

definition kept :: "string set \<Rightarrow> line list" where
  "kept ms =
     (if ''__cplusplus'' \<in> ms
      then [Declaration TSLanguage_typedef, ExternC_Open,
            Declaration tree_sitter_simplex_decl, Close_Brace]
      else [Declaration TSLanguage_typedef, Declaration tree_sitter_simplex_decl])"

subsection \<open>Reading signatures\<close>

text \<open>The number of arguments a parameter list fixes, if it fixes one.\<close>

fun arity :: "params \<Rightarrow> nat option" where
  "arity VoidParams = Some 0"
| "arity Unspecified = None"
| "arity (ParamList ts v) = Some (length ts)"

fun variadic :: "params \<Rightarrow> bool" where
  "variadic VoidParams = False"
| "variadic Unspecified = False"
| "variadic (ParamList ts v) = v"

fun function_lookup :: "entity list \<Rightarrow> string \<Rightarrow> (ctype \<times> params \<times> linkage) option" where
  "function_lookup [] f = None"
| "function_lookup (Function n ret ps k # es) f =
     (if n = f then Some (ret, ps, k) else function_lookup es f)"
| "function_lookup (e # es) f = function_lookup es f"

fun typedef_lookup :: "entity list \<Rightarrow> string \<Rightarrow> ctype option" where
  "typedef_lookup [] n = None"
| "typedef_lookup (TypeName m t # es) n = (if m = n then Some t else typedef_lookup es n)"
| "typedef_lookup (e # es) n = typedef_lookup es n"

text \<open>
  The members of a structure, when some declaration gives them. A structure that is only
  named, never given members, is an incomplete type: code that sees only such
  declarations can hold pointers to it and nothing else.
\<close>

fun struct_members :: "entity list \<Rightarrow> string \<Rightarrow> (string \<times> ctype) list option" where
  "struct_members [] tag = None"
| "struct_members (StructBody t ms # es) tag =
     (if t = tag then Some ms else struct_members es tag)"
| "struct_members (e # es) tag = struct_members es tag"

text \<open>The names of the functions a file declares, in whatever conditional they stand.\<close>

fun declared_functions :: "line list \<Rightarrow> string list" where
  "declared_functions [] = []"
| "declared_functions (Declaration (FunDecl ret n ps) # ls) = n # declared_functions ls"
| "declared_functions (l # ls) = declared_functions ls"

fun return_type :: "decl \<Rightarrow> ctype option" where
  "return_type (FunDecl ret n ps) = Some ret"
| "return_type d = None"

text \<open>A pointer through which the object pointed to cannot be written.\<close>

fun points_to_const :: "ctype \<Rightarrow> bool" where
  "points_to_const (Pointer (Const t)) = True"
| "points_to_const t = False"

subsection \<open>The naming scheme of the specification\<close>

text \<open>
  The specification gives the accessor's symbol the form
  \<^verbatim>\<open><prefix>_<grammar_identifier>\<close>. This definition follows those words; it is
  compared below with the name the header declares.
\<close>

definition spec_symbol_name :: "string \<Rightarrow> string \<Rightarrow> string" where
  "spec_symbol_name prefix grammar = prefix @ ''_'' @ grammar"

section \<open>The accessor at run time\<close>

text \<open>
  The header declares \<^verbatim>\<open>tree_sitter_simplex\<close>; its body and the descriptor it returns
  are in the generated parser module, which is not among the sources. What follows is
  therefore a model of what the specification says of them.
\<close>

type_synonym addr = nat

type_synonym byte = "8 word"

text \<open>A value of type \<^verbatim>\<open>const TSLanguage *\<close>: the null pointer or the address of an object.\<close>

datatype pointer = Null | Ptr addr

datatype runtime_error = RuntimeError

text \<open>
  Modelled from the spec: the state of the hosting process, of which the generated module
  is absent from the sources. The descriptor is "statically allocated; lives for the
  lifetime of the hosting process": the process has the address \<open>language\<close> of that static
  object, and its objects by address.
\<close>

record process =
  language :: addr
  objects :: "addr \<rightharpoonup> byte list"

text \<open>
  Modelled from the spec: program load, which is absent from the sources. The descriptor
  is "statically initialized": after load the static object at \<open>a\<close> holds the descriptor's
  bytes.
\<close>

definition load :: "addr \<Rightarrow> byte list \<Rightarrow> process" where
  "load a descriptor = \<lparr>language = a, objects = Map.empty(a \<mapsto> descriptor)\<rparr>"

text \<open>
  Modelled from the spec: the body of \<^verbatim>\<open>tree_sitter_simplex\<close>, which is absent from the
  sources (the header has its declaration only). "State: none. The function is a pure
  projection of a static object": it returns the address of the static descriptor and
  leaves the process as it is.
\<close>

definition tree_sitter_simplex :: "process \<Rightarrow> (runtime_error + pointer) \<times> process" where
  "tree_sitter_simplex p = (Inr (Ptr (language p)), p)"

text \<open>
  Modelled from the spec: a run of the process through the interface, which has the
  accessor as its one operation: \<open>n\<close> invocations in a row.
\<close>

fun invocations :: "nat \<Rightarrow> process \<Rightarrow> process" where
  "invocations 0 p = p"
| "invocations (Suc n) p = invocations n (snd (tree_sitter_simplex p))"

text \<open>Reading the object a pointer refers to.\<close>

fun deref :: "process \<Rightarrow> pointer \<Rightarrow> byte list option" where
  "deref p Null = None"
| "deref p (Ptr a) = objects p a"

text \<open>
  Modelled from the spec: the "byte-wise snapshot of the referent", the bytes of the
  static descriptor at some point of the run.
\<close>

definition snapshot :: "process \<Rightarrow> byte list option" where
  "snapshot p = deref p (Ptr (language p))"

subsection \<open>The host program\<close>

text \<open>
  The program that hosts the module calls the accessor, makes objects of its own, and
  reads and writes through the pointers it holds. Each pointer is held with its static
  type: the handle with the return type the header declares for the accessor, a pointer
  to an object of the host's own with the type the host gave that object. The compiler
  refuses a write through a pointer to \<^verbatim>\<open>const\<close>, and a use of a pointer that was never
  declared. A host that converts the handle to a pointer to a non-const type, or makes up
  an address, is outside this model.
\<close>

datatype op =
    Invoke
  | Alloc addr ctype "byte list"
  | Store nat "byte list"
  | Fetch nat

datatype host_error =
    Rejected
  | NullDereference
  | AddressInUse
  | AccessorFailed runtime_error

record host =
  proc :: process
  held :: "(pointer \<times> ctype) list"

text \<open>The host right after load: it holds no pointer yet.\<close>

definition start :: "addr \<Rightarrow> byte list \<Rightarrow> host" where
  "start base d = \<lparr>proc = load base d, held = []\<rparr>"

definition write_object :: "addr \<Rightarrow> byte list \<Rightarrow> process \<Rightarrow> process" where
  "write_object a bs p = p\<lparr>objects := (objects p)(a \<mapsto> bs)\<rparr>"

text \<open>
  One statement of the host, \<open>dcl\<close> being the declaration of the accessor it was compiled
  against. \<open>Invoke\<close> calls the accessor and holds the result with the declared return type.
  \<open>Alloc a t bs\<close> makes an object of type \<open>t\<close> at the address \<open>a\<close> the allocator chose, which
  is never the address of a live object, and holds a pointer to it. \<open>Store i bs\<close> writes
  through the \<open>i\<close>-th pointer held, \<open>Fetch i\<close> reads through it.
\<close>

fun step :: "decl \<Rightarrow> op \<Rightarrow> host \<Rightarrow> host_error + host" where
  "step dcl Invoke h =
     (case return_type dcl of
        None \<Rightarrow> Inl Rejected
      | Some t \<Rightarrow>
          (case tree_sitter_simplex (proc h) of
             (Inl e, p') \<Rightarrow> Inl (AccessorFailed e)
           | (Inr ptr, p') \<Rightarrow> Inr \<lparr>proc = p', held = held h @ [(ptr, t)]\<rparr>))"
| "step dcl (Alloc a t bs) h =
     (case objects (proc h) a of
        Some old \<Rightarrow> Inl AddressInUse
      | None \<Rightarrow>
          Inr \<lparr>proc = write_object a bs (proc h), held = held h @ [(Ptr a, Pointer t)]\<rparr>)"
| "step dcl (Store i bs) h =
     (if length (held h) \<le> i then Inl Rejected
      else case held h ! i of
        (ptr, t) \<Rightarrow>
          if points_to_const t then Inl Rejected
          else (case ptr of
                  Null \<Rightarrow> Inl NullDereference
                | Ptr a \<Rightarrow> Inr (h\<lparr>proc := write_object a bs (proc h)\<rparr>)))"
| "step dcl (Fetch i) h =
     (if length (held h) \<le> i then Inl Rejected
      else case held h ! i of
        (ptr, t) \<Rightarrow>
          (case deref (proc h) ptr of None \<Rightarrow> Inl NullDereference | Some bs \<Rightarrow> Inr h))"

text \<open>A host program: its statements in order, stopping at the first that fails.\<close>

fun run :: "decl \<Rightarrow> op list \<Rightarrow> host \<Rightarrow> host_error + host" where
  "run dcl [] h = Inr h"
| "run dcl (x # xs) h = (case step dcl x h of Inl e \<Rightarrow> Inl e | Inr h' \<Rightarrow> run dcl xs h')"


section \<open>Properties of the header\<close>

lemma include_header_guarded:
  "''TREE_SITTER_SIMPLEX_H_'' \<in> macros u \<Longrightarrow> include_header u = Inr u"
  by (simp add: include_header_def tree_sitter_simplex_h_def active_def)

lemma include_header_first:
  "''TREE_SITTER_SIMPLEX_H_'' \<notin> macros u \<Longrightarrow>
   include_header u =
     Inr (u\<lparr>macros := insert ''TREE_SITTER_SIMPLEX_H_'' (macros u),
           tokens := tokens u @ kept (macros u)\<rparr>)"
  by (simp add: include_header_def tree_sitter_simplex_h_def active_def kept_def)

text \<open>
  Claim C8. Including the header always succeeds, and including it again in the
  translation unit that results changes nothing: no macro is defined and no line reaches
  the compiler a second time. This holds whatever was defined or declared before the
  first inclusion.
\<close>

theorem include_header_idempotent:
  "\<exists>u'. include_header u = Inr u' \<and> include_header u' = Inr u'"
proof (cases "''TREE_SITTER_SIMPLEX_H_'' \<in> macros u")
  case True
  then show ?thesis by (simp add: include_header_guarded)
next
  case False
  then have
    "include_header u =
       Inr (u\<lparr>macros := insert ''TREE_SITTER_SIMPLEX_H_'' (macros u),
             tokens := tokens u @ kept (macros u)\<rparr>)"
    by (rule include_header_first)
  then show ?thesis by (simp add: include_header_guarded)
qed

text \<open>
  The guard is what does it: the typedef of line 4 read twice with no guard around it
  reaches the compiler twice.
\<close>

lemma unguarded_twice:
  "cpp ([Declaration TSLanguage_typedef] @ [Declaration TSLanguage_typedef]) [] u =
     Inr (u\<lparr>tokens := tokens u @
            [Declaration TSLanguage_typedef, Declaration TSLanguage_typedef]\<rparr>)"
  by (simp add: active_def)

lemma preprocessed_header:
  "cpp tree_sitter_simplex_h [] \<lparr>macros = predefined L, tokens = []\<rparr> =
     Inr \<lparr>macros = insert ''TREE_SITTER_SIMPLEX_H_'' (predefined L),
          tokens = kept (predefined L)\<rparr>"
  by (cases L) (simp_all add: tree_sitter_simplex_h_def predefined_def active_def kept_def)

lemma compiled_header:
  "compile L tree_sitter_simplex_h =
     Inr [TypeName ''TSLanguage'' (StructTag ''TSLanguage''),
          Function ''tree_sitter_simplex'' (Pointer (Const (TypedefName ''TSLanguage'')))
            VoidParams C_linkage]"
  unfolding compile_def preprocessed_header
  by (cases L)
     (simp_all add: kept_def predefined_def linkage_at_def
        TSLanguage_typedef_def tree_sitter_simplex_decl_def)

text \<open>
  Without the linkage block a C++ compiler gives the function C++ linkage: the block in
  the header is what makes the difference.
\<close>

lemma bare_declaration_cxx:
  "compile LangCxx [Declaration tree_sitter_simplex_decl] =
     Inr [Function ''tree_sitter_simplex'' (Pointer (Const (TypedefName ''TSLanguage'')))
            VoidParams Cxx_linkage]"
  by (simp add: compile_def predefined_def linkage_at_def active_def tree_sitter_simplex_decl_def)

text \<open>
  Claim C9. The header compiles as C and as C++, and in both the declaration of
  \<^verbatim>\<open>tree_sitter_simplex\<close> is there with C linkage. Compiled as C++, the lines that
  reach the compiler have the declaration between \<^verbatim>\<open>extern "C" {\<close> and \<^verbatim>\<open>}\<close>;
  compiled as C, they have the two declarations alone.
\<close>

theorem declaration_has_c_linkage:
  "(\<exists>es ret ps. compile L tree_sitter_simplex_h = Inr es \<and>
      function_lookup es ''tree_sitter_simplex'' = Some (ret, ps, C_linkage)) \<and>
   cpp tree_sitter_simplex_h [] \<lparr>macros = predefined LangCxx, tokens = []\<rparr> =
     Inr \<lparr>macros = {''TREE_SITTER_SIMPLEX_H_'', ''__cplusplus''},
          tokens = [Declaration TSLanguage_typedef, ExternC_Open,
                    Declaration tree_sitter_simplex_decl, Close_Brace]\<rparr> \<and>
   cpp tree_sitter_simplex_h [] \<lparr>macros = predefined LangC, tokens = []\<rparr> =
     Inr \<lparr>macros = {''TREE_SITTER_SIMPLEX_H_''},
          tokens = [Declaration TSLanguage_typedef, Declaration tree_sitter_simplex_decl]\<rparr>"
  using preprocessed_header [of LangCxx] preprocessed_header [of LangC]
  by (simp add: compiled_header kept_def predefined_def)

text \<open>
  Claim C7. In C and in C++ alike, the function the header declares has the parameter
  list \<^verbatim>\<open>(void)\<close>, which fixes the number of arguments at zero and is not variadic, and
  returns a pointer to \<^verbatim>\<open>const TSLanguage\<close>. \<^verbatim>\<open>TSLanguage\<close> names the structure
  \<^verbatim>\<open>struct TSLanguage\<close>, to which the header gives no members: the type is incomplete
  for every user of the header.
\<close>

theorem accessor_signature:
  "\<exists>es ps k. compile L tree_sitter_simplex_h = Inr es \<and>
     function_lookup es ''tree_sitter_simplex'' =
       Some (Pointer (Const (TypedefName ''TSLanguage'')), ps, k) \<and>
     ps = VoidParams \<and> arity ps = Some 0 \<and> \<not> variadic ps \<and>
     typedef_lookup es ''TSLanguage'' = Some (StructTag ''TSLanguage'') \<and>
     struct_members es ''TSLanguage'' = None"
  by (simp add: compiled_header)

text \<open>
  Claim C6. The header declares one function, and its name is the specification's
  \<^verbatim>\<open><prefix>_<grammar_identifier>\<close> with the prefix \<^verbatim>\<open>tree_sitter\<close> and the grammar
  identifier \<^verbatim>\<open>simplex\<close>, that is \<^verbatim>\<open>tree_sitter_simplex\<close>. Under one prefix, the name
  of another grammar's accessor is the same only if the grammar identifier is the same.
\<close>

theorem accessor_symbol_name:
  "declared_functions tree_sitter_simplex_h = [spec_symbol_name ''tree_sitter'' ''simplex''] \<and>
   spec_symbol_name ''tree_sitter'' ''simplex'' = ''tree_sitter_simplex'' \<and>
   (spec_symbol_name prefix g = spec_symbol_name prefix ''simplex'') = (g = ''simplex'')"
  by (simp add: tree_sitter_simplex_h_def tree_sitter_simplex_decl_def TSLanguage_typedef_def
        spec_symbol_name_def)

section \<open>Properties of the accessor\<close>

lemma invocations_same: "invocations n p = p"
  by (induction n) (simp_all add: tree_sitter_simplex_def)



text \<open>
  Claim C3. Every invocation of the accessor returns, and what it returns is a result,
  not an error.
\<close>

theorem accessor_total:
  "\<exists>h p'. tree_sitter_simplex p = (Inr h, p')"
  by (simp add: tree_sitter_simplex_def)

text \<open>
  Claim C4. An invocation of the accessor leaves the state of the process as it found
  it, and so does any number of invocations.
\<close>

theorem accessor_no_side_effect:
  "snd (tree_sitter_simplex p) = p \<and> invocations n p = p"
  by (simp add: invocations_same tree_sitter_simplex_def)





text \<open>
  The \<^verbatim>\<open>const\<close> of line 10 is what the host's writes are stopped by: had the header
  declared the accessor to return \<^verbatim>\<open>TSLanguage *\<close>, a host could write the descriptor
  through the handle.
\<close>

lemma writable_handle_mutates:
  "map_sum id (\<lambda>h. snapshot (proc h))
     (run (FunDecl (Pointer (TypedefName ''TSLanguage'')) ''tree_sitter_simplex'' VoidParams)
        [Invoke, Store 0 [0]] (start 16 [1])) = Inr (Some [0])"
  by (simp add: start_def load_def tree_sitter_simplex_def write_object_def snapshot_def)



end
